theory Spec2Isabelle
  imports Complex_Main
begin

section \<open>Entities\<close>

text \<open>
  Modelled from the spec: the rows of \<^verbatim>\<open>product/models.py\<close> and of
  \<^verbatim>\<open>django.contrib.auth\<close>, whose declarations are not available. The fields
  are those of section 3 of the specification, under the names that \<^verbatim>\<open>views.py\<close>
  and \<^verbatim>\<open>tests.py\<close> read and write (\<^verbatim>\<open>price\<close>, \<^verbatim>\<open>stock_quantity\<close>,
  \<^verbatim>\<open>category\<close>, \<^verbatim>\<open>user\<close>, \<^verbatim>\<open>rating\<close>, \<^verbatim>\<open>comment\<close>, \<^verbatim>\<open>is_staff\<close>).
  A foreign key is the primary key of the row it refers to. A decimal price is a
  rational number.
\<close>

record user =
  user_id :: nat
  username :: string
  is_staff :: bool

record category =
  category_id :: nat
  category_name :: string

record product =
  product_id :: nat
  product_name :: string
  price :: rat
  stock_quantity :: int
  product_category :: "nat option"

record order =
  order_id :: nat
  order_user :: nat
  order_items :: "(nat \<times> nat) list"

record review =
  review_id :: nat
  review_product :: nat
  rating :: int
  comment :: string
  review_user :: nat

section \<open>Requests\<close>

text \<open>
  \<^verbatim>\<open>request.user\<close> is a \<^verbatim>\<open>User\<close> row when the credential was accepted and
  Django's \<^verbatim>\<open>AnonymousUser\<close> otherwise. \<^verbatim>\<open>AnonymousUser\<close> has
  \<^verbatim>\<open>is_authenticated = False\<close>, \<^verbatim>\<open>is_staff = False\<close> and \<^verbatim>\<open>id = None\<close>.
\<close>

datatype actor = AnonymousUser | LoggedIn user

fun is_authenticated :: "actor \<Rightarrow> bool" where
  "is_authenticated AnonymousUser = False"
| "is_authenticated (LoggedIn u) = True"

fun actor_is_staff :: "actor \<Rightarrow> bool" where
  "actor_is_staff AnonymousUser = False"
| "actor_is_staff (LoggedIn u) = is_staff u"

fun actor_id :: "actor \<Rightarrow> nat option" where
  "actor_id AnonymousUser = None"
| "actor_id (LoggedIn u) = Some (user_id u)"

text \<open>
  The query parameters that \<^verbatim>\<open>ProductFilter\<close> and the paginator read, already
  parsed by their form fields: an absent or empty parameter is \<open>None\<close>.
\<close>

record query =
  min_price :: "rat option"
  max_price :: "rat option"
  category :: "nat option"
  in_stock :: "bool option"
  page :: "nat option"

definition no_query :: query where
  "no_query = \<lparr>min_price = None, max_price = None, category = None, in_stock = None, page = None\<rparr>"

record 'p request =
  request_method :: string
  request_user :: actor
  query_params :: query
  request_data :: 'p

text \<open>
  What arrives over HTTP, before authentication. The \<^verbatim>\<open>Authorization\<close> header is
  absent, or carries a bearer token that does not validate, or carries a valid token of
  a user. \<^verbatim>\<open>request\<close> above is the framework's request once \<^verbatim>\<open>request.user\<close>
  is set.
\<close>

datatype credential = NoCredential | InvalidToken | ValidToken user

record 'p http_request =
  http_method :: string
  authorization :: credential
  http_query_params :: query
  http_data :: 'p

definition authenticated_request :: "'p http_request \<Rightarrow> actor \<Rightarrow> 'p request" where
  "authenticated_request http actor =
     \<lparr>request_method = http_method http, request_user = actor,
      query_params = http_query_params http, request_data = http_data http\<rparr>"

text \<open>The two routes the router registers for each viewset: the collection and one record.\<close>

datatype route = Collection | Detail nat

section \<open>The framework's generic view\<close>

text \<open>
  \<^verbatim>\<open>views.py\<close> only fills in class attributes and hooks of \<^verbatim>\<open>rest_framework\<close>'s
  \<^verbatim>\<open>ModelViewSet\<close>. The part of the framework that runs them is written out here, after
  \<^verbatim>\<open>rest_framework.views.APIView\<close>, \<^verbatim>\<open>generics.GenericAPIView\<close> and
  \<^verbatim>\<open>mixins\<close>: \<^verbatim>\<open>dispatch\<close> authenticates the request with the view's
  \<^verbatim>\<open>authentication_classes\<close>, calls \<^verbatim>\<open>check_permissions\<close> and then the handler;
  \<^verbatim>\<open>get_object\<close> looks the record up in the filtered queryset and then calls
  \<^verbatim>\<open>check_object_permissions\<close>; a raised exception becomes the response.
\<close>

datatype api_exception =
  NotAuthenticated | AuthenticationFailed | PermissionDenied | Http404 | ValidationError
  | MethodNotAllowed | ServerError

text \<open>
  The status codes of \<^verbatim>\<open>rest_framework.exceptions\<close>; an exception that is not an
  API exception (\<open>ServerError\<close>) ends as 500.
\<close>

fun exception_status :: "api_exception \<Rightarrow> nat" where
  "exception_status NotAuthenticated = 401"
| "exception_status AuthenticationFailed = 401"
| "exception_status PermissionDenied = 403"
| "exception_status Http404 = 404"
| "exception_status ValidationError = 400"
| "exception_status MethodNotAllowed = 405"
| "exception_status ServerError = 500"

text \<open>A response: the status code and the records serialized into the body.\<close>

datatype 'o response = Response (status_code: nat) (data: "'o list")

text \<open>
  An authentication class: \<open>authenticate\<close> returns the user of the credential,
  \<open>None\<close> when the credential is not of its kind, or raises; \<open>authenticate_header\<close> is
  the \<^verbatim>\<open>WWW-Authenticate\<close> challenge, if the class has one.
  \<^verbatim>\<open>rest_framework_simplejwt\<close>'s \<^verbatim>\<open>JWTAuthentication\<close> returns \<^verbatim>\<open>None\<close> without
  an \<^verbatim>\<open>Authorization\<close> header, raises on a token that does not validate, and
  challenges with \<^verbatim>\<open>Bearer\<close>.
\<close>

record authenticator =
  authenticate :: "credential \<Rightarrow> api_exception + user option"
  authenticate_header :: "string option"

definition JWTAuthentication :: authenticator where
  "JWTAuthentication =
     \<lparr>authenticate = (\<lambda>c. case c of
          NoCredential \<Rightarrow> Inr None
        | InvalidToken \<Rightarrow> Inl AuthenticationFailed
        | ValidToken u \<Rightarrow> Inr (Some u)),
      authenticate_header = Some ''Bearer''\<rparr>"

text \<open>
  \<^verbatim>\<open>Request._authenticate\<close>: the first authentication class that returns a user
  decides; an exception of a class is raised on; when none returns a user,
  \<^verbatim>\<open>request.user\<close> is \<^verbatim>\<open>AnonymousUser\<close>.
\<close>

fun perform_authentication :: "authenticator list \<Rightarrow> credential \<Rightarrow> api_exception + actor" where
  "perform_authentication [] c = Inr AnonymousUser"
| "perform_authentication (cls # classes) c =
     (case authenticate cls c of
        Inl exc \<Rightarrow> Inl exc
      | Inr (Some u) \<Rightarrow> Inr (LoggedIn u)
      | Inr None \<Rightarrow> perform_authentication classes c)"

record ('o, 'p) permission_class =
  has_permission :: "'p request \<Rightarrow> bool"
  has_object_permission :: "'p request \<Rightarrow> 'o \<Rightarrow> bool"

text \<open>
  \<^verbatim>\<open>rest_framework.permissions\<close>: \<^verbatim>\<open>BasePermission.has_object_permission\<close> returns
  \<^verbatim>\<open>True\<close>; \<^verbatim>\<open>IsAuthenticated\<close> asks for an authenticated user;
  \<^verbatim>\<open>IsAuthenticatedOrReadOnly\<close> lets the safe methods through as well.
\<close>

definition SAFE_METHODS :: "string list" where
  "SAFE_METHODS = [''GET'', ''HEAD'', ''OPTIONS'']"

definition IsAuthenticated :: "('o, 'p) permission_class" where
  "IsAuthenticated =
     \<lparr>has_permission = (\<lambda>request. is_authenticated (request_user request)),
      has_object_permission = (\<lambda>request obj. True)\<rparr>"

definition IsAuthenticatedOrReadOnly :: "('o, 'p) permission_class" where
  "IsAuthenticatedOrReadOnly =
     \<lparr>has_permission = (\<lambda>request. request_method request \<in> set SAFE_METHODS
                                    \<or> is_authenticated (request_user request)),
      has_object_permission = (\<lambda>request obj. True)\<rparr>"

text \<open>
  \<^verbatim>\<open>get_object_or_404(queryset, pk=pk)\<close>: the row of the queryset with that primary
  key, \<^verbatim>\<open>Http404\<close> when there is none. Two rows under one key
  (\<^verbatim>\<open>MultipleObjectsReturned\<close>) cannot come out of a table with a primary key.
\<close>

definition get_object_or_404 :: "('o \<Rightarrow> nat) \<Rightarrow> 'o list \<Rightarrow> nat \<Rightarrow> api_exception + 'o" where
  "get_object_or_404 pk_of queryset pk =
     (case filter (\<lambda>obj. pk_of obj = pk) queryset of
        [] \<Rightarrow> Inl Http404
      | [obj] \<Rightarrow> Inr obj
      | _ \<Rightarrow> Inl ServerError)"

text \<open>
  The serializer classes live in \<^verbatim>\<open>serializers.py\<close>, whose source is not available,
  so a serializer is a parameter of every view: \<open>validate partial data\<close> is the
  validated data, or \<open>None\<close> when \<^verbatim>\<open>is_valid\<close> fails; \<open>create_row\<close> and
  \<open>update_row\<close> build the row that \<^verbatim>\<open>serializer.save()\<close> writes.
\<close>

record ('o, 'p) serializer =
  validate :: "bool \<Rightarrow> 'p \<Rightarrow> 'p option"
  create_row :: "'p \<Rightarrow> 'o list \<Rightarrow> 'o"
  update_row :: "'o \<Rightarrow> 'p \<Rightarrow> 'o"

text \<open>The class attributes and hooks a viewset of \<^verbatim>\<open>views.py\<close> sets.\<close>

record ('o, 'p) viewset =
  pk_field :: "'o \<Rightarrow> nat"
  authentication_classes :: "authenticator list"
  serializer_class :: "('o, 'p) serializer"
  get_permissions :: "string option \<Rightarrow> ('o, 'p) permission_class list"
  get_queryset :: "'p request \<Rightarrow> 'o list \<Rightarrow> api_exception + 'o list"
  filter_queryset :: "'p request \<Rightarrow> 'o list \<Rightarrow> api_exception + 'o list"
  page_size :: "nat option"
  perform_create :: "'p request \<Rightarrow> 'p \<Rightarrow> 'o list \<Rightarrow> api_exception + 'o"

text \<open>
  \<^verbatim>\<open>APIView.handle_exception\<close>: \<^verbatim>\<open>NotAuthenticated\<close> and
  \<^verbatim>\<open>AuthenticationFailed\<close> keep their 401 when the view's first authentication
  class has a challenge, and are coerced to 403 otherwise.
\<close>

definition get_authenticate_header :: "('o, 'p) viewset \<Rightarrow> string option" where
  "get_authenticate_header view =
     (case authentication_classes view of
        [] \<Rightarrow> None
      | cls # classes \<Rightarrow> authenticate_header cls)"

definition handle_exception :: "('o, 'p) viewset \<Rightarrow> api_exception \<Rightarrow> 'o response" where
  "handle_exception view exc =
     (if (exc = NotAuthenticated \<or> exc = AuthenticationFailed)
         \<and> get_authenticate_header view = None
      then Response 403 []
      else Response (exception_status exc) [])"

text \<open>
  \<^verbatim>\<open>APIView.permission_denied\<close>: a refused request that no authentication class
  authenticated raises \<^verbatim>\<open>NotAuthenticated\<close>, any other \<^verbatim>\<open>PermissionDenied\<close>.
\<close>

definition permission_denied :: "('o, 'p) viewset \<Rightarrow> 'p request \<Rightarrow> api_exception" where
  "permission_denied view request =
     (if authentication_classes view \<noteq> [] \<and> \<not> is_authenticated (request_user request)
      then NotAuthenticated else PermissionDenied)"

definition check_permissions ::
  "('o, 'p) viewset \<Rightarrow> string option \<Rightarrow> 'p request \<Rightarrow> api_exception + unit" where
  "check_permissions view action request =
     (if list_all (\<lambda>permission. has_permission permission request) (get_permissions view action)
      then Inr () else Inl (permission_denied view request))"

definition check_object_permissions ::
  "('o, 'p) viewset \<Rightarrow> string option \<Rightarrow> 'p request \<Rightarrow> 'o \<Rightarrow> api_exception + unit" where
  "check_object_permissions view action request obj =
     (if list_all (\<lambda>permission. has_object_permission permission request obj)
           (get_permissions view action)
      then Inr () else Inl (permission_denied view request))"

text \<open>The router's table from method and route to \<^verbatim>\<open>self.action\<close>.\<close>

fun action_map :: "string \<Rightarrow> route \<Rightarrow> string option" where
  "action_map m Collection =
     (if m = ''GET'' \<or> m = ''HEAD'' then Some ''list''
      else if m = ''POST'' then Some ''create''
      else if m = ''OPTIONS'' then Some ''metadata''
      else None)"
| "action_map m (Detail pk) =
     (if m = ''GET'' \<or> m = ''HEAD'' then Some ''retrieve''
      else if m = ''PUT'' then Some ''update''
      else if m = ''PATCH'' then Some ''partial_update''
      else if m = ''DELETE'' then Some ''destroy''
      else if m = ''OPTIONS'' then Some ''metadata''
      else None)"

text \<open>
  \<^verbatim>\<open>PageNumberPagination.paginate_queryset\<close>: without a \<^verbatim>\<open>page_size\<close> the whole
  queryset is the page; page 1 always exists, a later page only when it holds a row.
\<close>

definition paginate_queryset :: "nat option \<Rightarrow> nat option \<Rightarrow> 'o list \<Rightarrow> api_exception + 'o list" where
  "paginate_queryset per_page page_param queryset =
     (case per_page of
        None \<Rightarrow> Inr queryset
      | Some n \<Rightarrow>
          (let number = (case page_param of None \<Rightarrow> 1 | Some k \<Rightarrow> k) in
           if number = 1 \<or> (1 \<le> number \<and> (number - 1) * n < length queryset)
           then Inr (take n (drop ((number - 1) * n) queryset))
           else Inl Http404))"

definition get_object ::
  "('o, 'p) viewset \<Rightarrow> string option \<Rightarrow> 'p request \<Rightarrow> nat \<Rightarrow> 'o list \<Rightarrow> api_exception + 'o" where
  "get_object view action request pk table =
     (case get_queryset view request table of
        Inl exc \<Rightarrow> Inl exc
      | Inr queryset \<Rightarrow>
          (case filter_queryset view request queryset of
             Inl exc \<Rightarrow> Inl exc
           | Inr filtered \<Rightarrow>
               (case get_object_or_404 (pk_field view) filtered pk of
                  Inl exc \<Rightarrow> Inl exc
                | Inr obj \<Rightarrow>
                    (case check_object_permissions view action request obj of
                       Inl exc \<Rightarrow> Inl exc
                     | Inr _ \<Rightarrow> Inr obj))))"

text \<open>
  The handlers of \<^verbatim>\<open>rest_framework.mixins\<close>. Each takes the model's table and
  returns the response with the table after the request.
\<close>

definition list_action ::
  "('o, 'p) viewset \<Rightarrow> 'p request \<Rightarrow> 'o list \<Rightarrow> 'o response \<times> 'o list" where
  "list_action view request table =
     (case get_queryset view request table of
        Inl exc \<Rightarrow> (handle_exception view exc, table)
      | Inr queryset \<Rightarrow>
          (case filter_queryset view request queryset of
             Inl exc \<Rightarrow> (handle_exception view exc, table)
           | Inr filtered \<Rightarrow>
               (case paginate_queryset (page_size view) (page (query_params request)) filtered of
                  Inl exc \<Rightarrow> (handle_exception view exc, table)
                | Inr rows \<Rightarrow> (Response 200 rows, table))))"

definition create_action ::
  "('o, 'p) viewset \<Rightarrow> 'p request \<Rightarrow> 'o list \<Rightarrow> 'o response \<times> 'o list" where
  "create_action view request table =
     (case validate (serializer_class view) False (request_data request) of
        None \<Rightarrow> (handle_exception view ValidationError, table)
      | Some validated_data \<Rightarrow>
          (case perform_create view request validated_data table of
             Inl exc \<Rightarrow> (handle_exception view exc, table)
           | Inr row \<Rightarrow> (Response 201 [row], table @ [row])))"

definition retrieve_action ::
  "('o, 'p) viewset \<Rightarrow> 'p request \<Rightarrow> nat \<Rightarrow> 'o list \<Rightarrow> 'o response \<times> 'o list" where
  "retrieve_action view request pk table =
     (case get_object view (Some ''retrieve'') request pk table of
        Inl exc \<Rightarrow> (handle_exception view exc, table)
      | Inr obj \<Rightarrow> (Response 200 [obj], table))"

definition update_action ::
  "('o, 'p) viewset \<Rightarrow> bool \<Rightarrow> 'p request \<Rightarrow> nat \<Rightarrow> 'o list \<Rightarrow> 'o response \<times> 'o list" where
  "update_action view partial request pk table =
     (case get_object view (Some (if partial then ''partial_update'' else ''update'')) request pk table of
        Inl exc \<Rightarrow> (handle_exception view exc, table)
      | Inr obj \<Rightarrow>
          (case validate (serializer_class view) partial (request_data request) of
             None \<Rightarrow> (handle_exception view ValidationError, table)
           | Some validated_data \<Rightarrow>
               (let row = update_row (serializer_class view) obj validated_data in
                (Response 200 [row],
                 map (\<lambda>r. if pk_field view r = pk then row else r) table))))"

definition destroy_action ::
  "('o, 'p) viewset \<Rightarrow> 'p request \<Rightarrow> nat \<Rightarrow> 'o list \<Rightarrow> 'o response \<times> 'o list" where
  "destroy_action view request pk table =
     (case get_object view (Some ''destroy'') request pk table of
        Inl exc \<Rightarrow> (handle_exception view exc, table)
      | Inr obj \<Rightarrow> (Response 204 [], filter (\<lambda>r. pk_field view r \<noteq> pk) table))"

text \<open>
  \<^verbatim>\<open>APIView.dispatch\<close>: \<^verbatim>\<open>initial\<close> authenticates the request and checks the
  permission classes of \<^verbatim>\<open>get_permissions()\<close>, then the handler the router bound to
  the method runs.
\<close>

definition dispatch ::
  "('o, 'p) viewset \<Rightarrow> 'p http_request \<Rightarrow> route \<Rightarrow> 'o list \<Rightarrow> 'o response \<times> 'o list" where
  "dispatch view http rt table =
     (case perform_authentication (authentication_classes view) (authorization http) of
        Inl exc \<Rightarrow> (handle_exception view exc, table)
      | Inr actor \<Rightarrow>
          (let request = authenticated_request http actor;
               action = action_map (request_method request) rt in
           case check_permissions view action request of
             Inl exc \<Rightarrow> (handle_exception view exc, table)
           | Inr _ \<Rightarrow>
               (case rt of
                  Collection \<Rightarrow>
                    (if action = Some ''list'' then list_action view request table
                     else if action = Some ''create'' then create_action view request table
                     else if action = Some ''metadata'' then (Response 200 [], table)
                     else (handle_exception view MethodNotAllowed, table))
                | Detail pk \<Rightarrow>
                    (if action = Some ''retrieve'' then retrieve_action view request pk table
                     else if action = Some ''update'' then update_action view False request pk table
                     else if action = Some ''partial_update''
                     then update_action view True request pk table
                     else if action = Some ''destroy'' then destroy_action view request pk table
                     else if action = Some ''metadata'' then (Response 200 [], table)
                     else (handle_exception view MethodNotAllowed, table)))))"

text \<open>\<^verbatim>\<open>CreateModelMixin.perform_create\<close>, where a viewset does not override it.\<close>

definition default_perform_create ::
  "('o, 'p) serializer \<Rightarrow> 'p request \<Rightarrow> 'p \<Rightarrow> 'o list \<Rightarrow> api_exception + 'o" where
  "default_perform_create serializer request validated_data table =
     Inr (create_row serializer validated_data table)"

definition all_rows :: "'p request \<Rightarrow> 'o list \<Rightarrow> api_exception + 'o list" where
  "all_rows request queryset = Inr queryset"

section \<open>The views of \<^verbatim>\<open>product/views.py\<close>\<close>

subsection \<open>UserViewSet\<close>

definition UserViewSet_get_permissions :: "string option \<Rightarrow> (user, 'p) permission_class list" where
  "UserViewSet_get_permissions action =
     (if action = Some ''create'' then [] else [IsAuthenticated])"

text \<open>
  \<^verbatim>\<open>User.objects.filter(id=self.request.user.id)\<close>: for \<^verbatim>\<open>AnonymousUser\<close> the id is
  \<^verbatim>\<open>None\<close> and no row matches.
\<close>

definition UserViewSet_get_queryset :: "'p request \<Rightarrow> user list \<Rightarrow> api_exception + user list" where
  "UserViewSet_get_queryset request User_objects =
     (if actor_is_staff (request_user request) then Inr User_objects
      else Inr (filter (\<lambda>u. Some (user_id u) = actor_id (request_user request)) User_objects))"

definition UserViewSet :: "(user, 'p) serializer \<Rightarrow> (user, 'p) viewset" where
  "UserViewSet UserSerializer =
     \<lparr>pk_field = user_id,
      authentication_classes = [JWTAuthentication],
      serializer_class = UserSerializer,
      get_permissions = UserViewSet_get_permissions,
      get_queryset = UserViewSet_get_queryset,
      filter_queryset = all_rows,
      page_size = None,
      perform_create = default_perform_create UserSerializer\<rparr>"

subsection \<open>ProductFilter and ProductViewSet\<close>

text \<open>
  Each filter of a \<^verbatim>\<open>FilterSet\<close> leaves the queryset alone when its parameter is
  absent and otherwise calls \<^verbatim>\<open>queryset.filter(<field_name>__<lookup_expr>=value)\<close>.
  \<^verbatim>\<open>in_stock\<close> is a \<^verbatim>\<open>BooleanFilter\<close> on \<^verbatim>\<open>stock_quantity\<close> with lookup
  \<^verbatim>\<open>gt\<close>: the value compared with the integer column is the parsed boolean itself,
  and a Python \<^verbatim>\<open>bool\<close> is the integer 1 or 0 (\<^verbatim>\<open>int(True) == 1\<close>).
  \<^verbatim>\<open>category\<close> is a \<^verbatim>\<open>ModelChoiceFilter\<close>: a key that is not in
  \<^verbatim>\<open>Category.objects.all()\<close> fails the filter's form.
\<close>

definition ProductFilter_min_price :: "rat option \<Rightarrow> product list \<Rightarrow> product list" where
  "ProductFilter_min_price param queryset =
     (case param of None \<Rightarrow> queryset | Some v \<Rightarrow> filter (\<lambda>p. price p \<ge> v) queryset)"

definition ProductFilter_max_price :: "rat option \<Rightarrow> product list \<Rightarrow> product list" where
  "ProductFilter_max_price param queryset =
     (case param of None \<Rightarrow> queryset | Some v \<Rightarrow> filter (\<lambda>p. price p \<le> v) queryset)"

definition ProductFilter_category :: "nat option \<Rightarrow> product list \<Rightarrow> product list" where
  "ProductFilter_category param queryset =
     (case param of None \<Rightarrow> queryset
      | Some c \<Rightarrow> filter (\<lambda>p. product_category p = Some c) queryset)"

definition ProductFilter_in_stock :: "bool option \<Rightarrow> product list \<Rightarrow> product list" where
  "ProductFilter_in_stock param queryset =
     (case param of None \<Rightarrow> queryset
      | Some v \<Rightarrow> filter (\<lambda>p. stock_quantity p > of_bool v) queryset)"

definition ProductFilter :: "category list \<Rightarrow> query \<Rightarrow> product list \<Rightarrow> api_exception + product list" where
  "ProductFilter Category_objects params queryset =
     (if (case category params of None \<Rightarrow> False
          | Some c \<Rightarrow> c \<notin> set (map category_id Category_objects))
      then Inl ValidationError
      else Inr (ProductFilter_in_stock (in_stock params)
                 (ProductFilter_max_price (max_price params)
                   (ProductFilter_min_price (min_price params)
                     (ProductFilter_category (category params) queryset)))))"

text \<open>
  \<^verbatim>\<open>search_fields\<close>, \<^verbatim>\<open>ordering_fields\<close> and \<^verbatim>\<open>ordering\<close> are read by the
  search and ordering backends only, which narrow on a \<^verbatim>\<open>search\<close> parameter and
  reorder the rows. They are left out: rows are read in table order.
\<close>

definition ProductPagination_page_size :: nat where
  "ProductPagination_page_size = 10"

definition ProductViewSet_get_queryset :: "'p request \<Rightarrow> product list \<Rightarrow> api_exception + product list" where
  "ProductViewSet_get_queryset request Product_objects = Inr Product_objects"

definition ProductViewSet :: "(product, 'p) serializer \<Rightarrow> category list \<Rightarrow> (product, 'p) viewset" where
  "ProductViewSet ProductSerializer Category_objects =
     \<lparr>pk_field = product_id,
      authentication_classes = [JWTAuthentication],
      serializer_class = ProductSerializer,
      get_permissions = (\<lambda>action. [IsAuthenticatedOrReadOnly]),
      get_queryset = ProductViewSet_get_queryset,
      filter_queryset = (\<lambda>request. ProductFilter Category_objects (query_params request)),
      page_size = Some ProductPagination_page_size,
      perform_create = default_perform_create ProductSerializer\<rparr>"

subsection \<open>IsAdminOrReadOnly and OrderViewSet\<close>

text \<open>
  \<^verbatim>\<open>obj.user == request.user\<close> compares model instances: it holds when
  \<^verbatim>\<open>request.user\<close> is the \<^verbatim>\<open>User\<close> row with the order's \<^verbatim>\<open>user_id\<close>, and never
  for \<^verbatim>\<open>AnonymousUser\<close>.
\<close>

definition IsAdminOrReadOnly_has_permission :: "'p request \<Rightarrow> bool" where
  "IsAdminOrReadOnly_has_permission request =
     (if request_method request \<in> set [''GET'', ''HEAD'', ''OPTIONS'', ''POST'']
      then is_authenticated (request_user request)
      else actor_is_staff (request_user request))"

definition IsAdminOrReadOnly_has_object_permission :: "'p request \<Rightarrow> order \<Rightarrow> bool" where
  "IsAdminOrReadOnly_has_object_permission request obj =
     (if request_method request = ''GET'' \<and> Some (order_user obj) = actor_id (request_user request)
      then True
      else if request_method request \<in> set [''PUT'', ''DELETE'']
      then (if actor_is_staff (request_user request) then True
            else Some (order_user obj) = actor_id (request_user request))
      else False)"

definition IsAdminOrReadOnly :: "(order, 'p) permission_class" where
  "IsAdminOrReadOnly =
     \<lparr>has_permission = IsAdminOrReadOnly_has_permission,
      has_object_permission = IsAdminOrReadOnly_has_object_permission\<rparr>"

text \<open>
  \<^verbatim>\<open>Order.objects.filter(user=self.request.user)\<close> raises a \<^verbatim>\<open>TypeError\<close> for
  \<^verbatim>\<open>AnonymousUser\<close>, which is no row of the user table.
\<close>

definition OrderViewSet_get_queryset :: "'p request \<Rightarrow> order list \<Rightarrow> api_exception + order list" where
  "OrderViewSet_get_queryset request Order_objects =
     (if actor_is_staff (request_user request) then Inr Order_objects
      else (case request_user request of
              AnonymousUser \<Rightarrow> Inl ServerError
            | LoggedIn u \<Rightarrow> Inr (filter (\<lambda>obj. order_user obj = user_id u) Order_objects)))"

definition OrderViewSet :: "(order, 'p) serializer \<Rightarrow> (order, 'p) viewset" where
  "OrderViewSet OrderSerializer =
     \<lparr>pk_field = order_id,
      authentication_classes = [JWTAuthentication],
      serializer_class = OrderSerializer,
      get_permissions = (\<lambda>action. [IsAuthenticated, IsAdminOrReadOnly]),
      get_queryset = OrderViewSet_get_queryset,
      filter_queryset = all_rows,
      page_size = Some ProductPagination_page_size,
      perform_create = default_perform_create OrderSerializer\<rparr>"

subsection \<open>ReviewViewSet\<close>

text \<open>
  The payload of a review. \<open>data_user\<close> is the \<^verbatim>\<open>user\<close> key, which a client may or
  may not send. \<^verbatim>\<open>serializer.save(user=self.request.user)\<close> merges its keyword
  arguments over the validated data and creates the row from the result.
\<close>

record review_data =
  data_product :: nat
  data_rating :: int
  data_comment :: string
  data_user :: "nat option"

text \<open>
  \<^verbatim>\<open>Review.objects.create(**validated_data)\<close>. The primary key of the new row is the
  one the database's sequence hands out: \<open>new_pk\<close>, a parameter. A row without a user
  violates the column's constraint.
\<close>

definition Review_objects_create :: "nat \<Rightarrow> review_data \<Rightarrow> review list \<Rightarrow> api_exception + review" where
  "Review_objects_create new_pk validated_data Review_objects =
     (case data_user validated_data of
        None \<Rightarrow> Inl ServerError
      | Some uid \<Rightarrow>
          Inr \<lparr>review_id = new_pk,
               review_product = data_product validated_data,
               rating = data_rating validated_data,
               comment = data_comment validated_data,
               review_user = uid\<rparr>)"

definition ReviewViewSet_perform_create ::
  "nat \<Rightarrow> review_data request \<Rightarrow> review_data \<Rightarrow> review list \<Rightarrow> api_exception + review" where
  "ReviewViewSet_perform_create new_pk request validated_data Review_objects =
     Review_objects_create new_pk
       (validated_data\<lparr>data_user := actor_id (request_user request)\<rparr>) Review_objects"

text \<open>
  \<^verbatim>\<open>ReviewViewSet\<close> sets no \<^verbatim>\<open>authentication_classes\<close>: it authenticates with the
  \<^verbatim>\<open>DEFAULT_AUTHENTICATION_CLASSES\<close> of the project's settings, which are not
  available and are a parameter.
\<close>

definition ReviewViewSet ::
  "(review, review_data) serializer \<Rightarrow> authenticator list \<Rightarrow> nat \<Rightarrow> (review, review_data) viewset" where
  "ReviewViewSet ReviewSerializer DEFAULT_AUTHENTICATION_CLASSES new_pk =
     \<lparr>pk_field = review_id,
      authentication_classes = DEFAULT_AUTHENTICATION_CLASSES,
      serializer_class = ReviewSerializer,
      get_permissions = (\<lambda>action. [IsAuthenticated]),
      get_queryset = all_rows,
      filter_queryset = all_rows,
      page_size = None,
      perform_create = ReviewViewSet_perform_create new_pk\<rparr>"

subsection \<open>CategoryViewSet\<close>

definition CategoryViewSet_get_queryset :: "'p request \<Rightarrow> category list \<Rightarrow> api_exception + category list" where
  "CategoryViewSet_get_queryset request Category_objects = Inr Category_objects"

definition CategoryViewSet :: "(category, 'p) serializer \<Rightarrow> (category, 'p) viewset" where
  "CategoryViewSet CategorySirializers =
     \<lparr>pk_field = category_id,
      authentication_classes = [JWTAuthentication],
      serializer_class = CategorySirializers,
      get_permissions = (\<lambda>action. [IsAuthenticatedOrReadOnly]),
      get_queryset = CategoryViewSet_get_queryset,
      filter_queryset = all_rows,
      page_size = None,
      perform_create = default_perform_create CategorySirializers\<rparr>"

section \<open>Sample data\<close>

text \<open>
  A serializer whose payload is the row itself: every payload is valid, the created row
  and the updated row are the payload.
\<close>

definition echo_serializer :: "('o, 'o) serializer" where
  "echo_serializer =
     \<lparr>validate = (\<lambda>partial data. Some data),
      create_row = (\<lambda>data table. data),
      update_row = (\<lambda>obj data. data)\<rparr>"

text \<open>A serializer for review payloads that accepts every payload as it is.\<close>

definition review_serializer :: "(review, review_data) serializer" where
  "review_serializer =
     \<lparr>validate = (\<lambda>partial data. Some data),
      create_row = (\<lambda>data table.
        \<lparr>review_id = 0, review_product = data_product data, rating = data_rating data,
         comment = data_comment data, review_user = 0\<rparr>),
      update_row = (\<lambda>obj data.
        obj\<lparr>review_product := data_product data, rating := data_rating data,
            comment := data_comment data\<rparr>)\<rparr>"

definition order_of_user_1 :: order where
  "order_of_user_1 = \<lparr>order_id = 7, order_user = 1, order_items = [(5, 2)]\<rparr>"

definition user_1 :: user where
  "user_1 = \<lparr>user_id = 1, username = ''testuser'', is_staff = False\<rparr>"

definition user_2 :: user where
  "user_2 = \<lparr>user_id = 2, username = ''other'', is_staff = False\<rparr>"

definition admin_user :: user where
  "admin_user = \<lparr>user_id = 3, username = ''admin'', is_staff = True\<rparr>"

definition review_of_user_1 :: review where
  "review_of_user_1 =
     \<lparr>review_id = 4, review_product = 5, rating = 5, comment = ''Great product!'', review_user = 1\<rparr>"

definition sample_product :: "nat \<Rightarrow> product" where
  "sample_product n =
     \<lparr>product_id = n, product_name = ''Test Product'', price = 1099 / 100,
      stock_quantity = 100, product_category = None\<rparr>"

definition catalog_of_11 :: "product list" where
  "catalog_of_11 = map sample_product [1, 2, 3, 4, 5, 6, 7, 8, 9, 10, 11]"

section \<open>Unfolding and lookup lemmas\<close>

lemmas framework_defs =
  dispatch_def authenticated_request_def JWTAuthentication_def get_authenticate_header_def
  handle_exception_def permission_denied_def check_permissions_def check_object_permissions_def
  get_object_def list_action_def create_action_def retrieve_action_def update_action_def
  destroy_action_def all_rows_def default_perform_create_def paginate_queryset_def
  IsAuthenticated_def IsAuthenticatedOrReadOnly_def SAFE_METHODS_def Let_def

lemmas user_defs =
  UserViewSet_def UserViewSet_get_permissions_def UserViewSet_get_queryset_def

lemmas product_defs =
  ProductViewSet_def ProductViewSet_get_queryset_def ProductFilter_def ProductFilter_min_price_def
  ProductFilter_max_price_def ProductFilter_category_def ProductFilter_in_stock_def
  ProductPagination_page_size_def no_query_def

lemmas order_defs =
  OrderViewSet_def OrderViewSet_get_queryset_def IsAdminOrReadOnly_def
  IsAdminOrReadOnly_has_permission_def IsAdminOrReadOnly_has_object_permission_def

lemmas review_defs =
  ReviewViewSet_def ReviewViewSet_perform_create_def Review_objects_create_def

lemmas category_defs =
  CategoryViewSet_def CategoryViewSet_get_queryset_def

lemmas sample_defs =
  echo_serializer_def review_serializer_def order_of_user_1_def user_1_def user_2_def
  admin_user_def review_of_user_1_def no_query_def get_object_or_404_def

text \<open>
  Looking a key up in a queryset narrowed by \<^verbatim>\<open>.filter(...)\<close>: the row found in the
  whole table is found again when it passes the filter, and is absent (404) otherwise.
\<close>

lemma get_object_or_404_filter:
  assumes "get_object_or_404 pk_of table pk = Inr obj"
  shows "get_object_or_404 pk_of (filter P table) pk = (if P obj then Inr obj else Inl Http404)"
proof -
  from assms have one: "filter (\<lambda>r. pk_of r = pk) table = [obj]"
    by (auto simp: get_object_or_404_def split: list.splits)
  have "filter (\<lambda>r. pk_of r = pk) (filter P table) = filter P (filter (\<lambda>r. pk_of r = pk) table)"
    by (simp add: conj_commute)
  with one show ?thesis
    by (simp add: get_object_or_404_def)
qed

text \<open>In a table whose primary keys are distinct, a key selects its own row only.\<close>

lemma filter_pk_distinct:
  assumes "distinct (map pk_of table)" and "row \<in> set table"
  shows "filter (\<lambda>r. pk_of r = pk_of row) table = [row]"
  using assms
proof (induction table)
  case Nil
  then show ?case by simp
next
  case (Cons x xs)
  show ?case
  proof (cases "x = row")
    case True
    with Cons.prems have "\<forall>r \<in> set xs. pk_of r \<noteq> pk_of row"
      by (auto simp: image_iff)
    then have "filter (\<lambda>r. pk_of r = pk_of row) xs = []"
      by (simp add: filter_empty_conv)
    with True show ?thesis by simp
  next
    case False
    with Cons.prems have "row \<in> set xs" and "pk_of x \<noteq> pk_of row" and "distinct (map pk_of xs)"
      by (auto simp: image_iff)
    with Cons.IH show ?thesis by simp
  qed
qed

text \<open>
  A request that fails authentication is answered before any permission class or handler
  runs: with \<^verbatim>\<open>JWTAuthentication\<close> first, an invalid bearer token is a 401 on every
  route of every view that names it, the open ones included.
\<close>

lemma invalid_token_unauthorized:
  assumes "authentication_classes view = JWTAuthentication # classes"
  shows "dispatch view
           \<lparr>http_method = m, authorization = InvalidToken, http_query_params = q, http_data = d\<rparr>
           rt table = (Response 401 [], table)"
  using assms
  by (simp add: dispatch_def handle_exception_def get_authenticate_header_def JWTAuthentication_def)

section \<open>Orders: retrieve\<close>

text \<open>
  Claim C4. A non-staff authenticated actor who retrieves (GET by id) an order of the
  table gets 200 with the order when the order is their own, and 404 with an empty body
  when it belongs to another user: \<^verbatim>\<open>get_queryset\<close> hides the order, so the lookup
  fails before any data is read.
\<close>

theorem nonstaff_retrieve_order:
  assumes "\<not> is_staff u"
    and "get_object_or_404 order_id Order_objects pk = Inr obj"
  shows "dispatch (OrderViewSet OrderSerializer)
           \<lparr>http_method = ''GET'', authorization = ValidToken u, http_query_params = q, http_data = d\<rparr>
           (Detail pk) Order_objects =
         (if order_user obj = user_id u then (Response 200 [obj], Order_objects)
          else (Response 404 [], Order_objects))"
  using assms
  by (simp add: framework_defs order_defs get_object_or_404_filter)

text \<open>
  The theorem at the order of user 1: user 1 reads it, user 2 gets 404 and no data.
\<close>

theorem nonstaff_retrieve_order_witness:
  "dispatch (OrderViewSet echo_serializer)
     \<lparr>http_method = ''GET'', authorization = ValidToken user_1, http_query_params = no_query,
      http_data = order_of_user_1\<rparr>
     (Detail 7) [order_of_user_1] = (Response 200 [order_of_user_1], [order_of_user_1])
   \<and> dispatch (OrderViewSet echo_serializer)
     \<lparr>http_method = ''GET'', authorization = ValidToken user_2, http_query_params = no_query,
      http_data = order_of_user_1\<rparr>
     (Detail 7) [order_of_user_1] = (Response 404 [], [order_of_user_1])"
proof -
  have found: "get_object_or_404 order_id [order_of_user_1] 7 = Inr order_of_user_1"
    by (simp add: sample_defs)
  have n1: "\<not> is_staff user_1" and n2: "\<not> is_staff user_2"
    by (simp_all add: sample_defs)
  show ?thesis
    using nonstaff_retrieve_order [OF n1 found, of echo_serializer no_query order_of_user_1]
      nonstaff_retrieve_order [OF n2 found, of echo_serializer no_query order_of_user_1]
    by (simp add: order_of_user_1_def user_1_def user_2_def)
qed

text \<open>
  What a staff actor gets for GET by id: the order when it is their own, 403 otherwise.
  The order is in the staff actor's queryset, but the object-level check lets GET pass
  for the owner only.
\<close>

lemma staff_retrieve_order:
  assumes "is_staff u"
    and "get_object_or_404 order_id Order_objects pk = Inr obj"
  shows "dispatch (OrderViewSet OrderSerializer)
           \<lparr>http_method = ''GET'', authorization = ValidToken u, http_query_params = q, http_data = d\<rparr>
           (Detail pk) Order_objects =
         (if order_user obj = user_id u then (Response 200 [obj], Order_objects)
          else (Response 403 [], Order_objects))"
  using assms
  by (simp add: framework_defs order_defs)

text \<open>
  Claim C1 says that a staff actor retrieving any order gets 200, owner or not. The code
  at a staff actor (user 3) and the order of user 1: both permission classes pass at the
  collection level and the order is in the queryset, then
  \<^verbatim>\<open>IsAdminOrReadOnly.has_object_permission\<close> falls through to \<^verbatim>\<open>return False\<close>
  and the response is 403.
\<close>

theorem staff_retrieve_foreign_order_refused:
  "dispatch (OrderViewSet echo_serializer)
     \<lparr>http_method = ''GET'', authorization = ValidToken admin_user, http_query_params = no_query,
      http_data = order_of_user_1\<rparr>
     (Detail 7) [order_of_user_1] = (Response 403 [], [order_of_user_1])"
  by (simp add: framework_defs order_defs sample_defs)

section \<open>Orders: update and delete\<close>

text \<open>
  Claim C2 as stated (update and delete allowed when the actor is staff or the owner,
  the two gates joined by OR) fails for an owner who is not staff: user 1 may neither
  PUT nor DELETE their own order, because \<^verbatim>\<open>IsAdminOrReadOnly.has_permission\<close>
  refuses every non-staff actor before the order is looked up.
\<close>

theorem owner_update_refused_counterexample:
  "order_user order_of_user_1 = user_id user_1
   \<and> dispatch (OrderViewSet echo_serializer)
       \<lparr>http_method = ''PUT'', authorization = ValidToken user_1, http_query_params = no_query,
        http_data = order_of_user_1\<rparr>
       (Detail 7) [order_of_user_1] = (Response 403 [], [order_of_user_1])
   \<and> dispatch (OrderViewSet echo_serializer)
       \<lparr>http_method = ''DELETE'', authorization = ValidToken user_1, http_query_params = no_query,
        http_data = order_of_user_1\<rparr>
       (Detail 7) [order_of_user_1] = (Response 403 [], [order_of_user_1])"
  by (simp add: framework_defs order_defs sample_defs)

text \<open>
  Claim C2, amended. For every order of the table and every authenticated actor, PUT and
  DELETE of that order go through exactly when the actor is staff: the collection-level
  gate and the object-level gate must both pass. A staff actor's PUT answers 200 with the
  updated row (400 when the payload is invalid) and their DELETE answers 204 and removes
  the row; every other authenticated actor, the owner included, gets 403 and the table is
  unchanged.
\<close>

theorem order_update_delete_staff_only:
  assumes "get_object_or_404 order_id Order_objects pk = Inr obj"
  shows "dispatch (OrderViewSet OrderSerializer)
           \<lparr>http_method = ''PUT'', authorization = ValidToken u, http_query_params = q, http_data = d\<rparr>
           (Detail pk) Order_objects =
         (if is_staff u
          then (case validate OrderSerializer False d of
                  None \<Rightarrow> (Response 400 [], Order_objects)
                | Some validated_data \<Rightarrow>
                    (Response 200 [update_row OrderSerializer obj validated_data],
                     map (\<lambda>r. if order_id r = pk then update_row OrderSerializer obj validated_data else r)
                       Order_objects))
          else (Response 403 [], Order_objects))
       \<and> dispatch (OrderViewSet OrderSerializer)
           \<lparr>http_method = ''DELETE'', authorization = ValidToken u, http_query_params = q, http_data = d\<rparr>
           (Detail pk) Order_objects =
         (if is_staff u then (Response 204 [], filter (\<lambda>r. order_id r \<noteq> pk) Order_objects)
          else (Response 403 [], Order_objects))"
  using assms
  by (simp add: framework_defs order_defs split: option.splits)

text \<open>
  The theorem at the order of user 1 and the staff actor: the PUT stores the payload,
  the DELETE empties the table.
\<close>

theorem order_update_delete_staff_only_witness:
  "dispatch (OrderViewSet echo_serializer)
     \<lparr>http_method = ''PUT'', authorization = ValidToken admin_user, http_query_params = no_query,
      http_data = \<lparr>order_id = 7, order_user = 1, order_items = [(5, 3)]\<rparr>\<rparr>
     (Detail 7) [order_of_user_1]
   = (Response 200 [\<lparr>order_id = 7, order_user = 1, order_items = [(5, 3)]\<rparr>],
      [\<lparr>order_id = 7, order_user = 1, order_items = [(5, 3)]\<rparr>])
   \<and> dispatch (OrderViewSet echo_serializer)
     \<lparr>http_method = ''DELETE'', authorization = ValidToken admin_user, http_query_params = no_query,
      http_data = \<lparr>order_id = 7, order_user = 1, order_items = [(5, 3)]\<rparr>\<rparr>
     (Detail 7) [order_of_user_1] = (Response 204 [], [])"
proof -
  have found: "get_object_or_404 order_id [order_of_user_1] 7 = Inr order_of_user_1"
    by (simp add: sample_defs)
  show ?thesis
    using order_update_delete_staff_only [OF found, of echo_serializer admin_user no_query
        "\<lparr>order_id = 7, order_user = 1, order_items = [(5, 3)]\<rparr>"]
    by (simp add: echo_serializer_def admin_user_def order_of_user_1_def)
qed

text \<open>
  Claim C10. The object-level permission of an order grants nothing outside GET, PUT and
  DELETE, whoever asks; and a PATCH of an order of the table is refused with the table
  unchanged for every actor, staff included: 403 for an authenticated actor, 401 for a
  request without a valid credential.
\<close>

theorem order_patch_refused:
  "(request_method request \<notin> {''GET'', ''PUT'', ''DELETE''} \<longrightarrow>
      \<not> has_object_permission IsAdminOrReadOnly request obj)
   \<and> (get_object_or_404 order_id Order_objects pk = Inr obj \<longrightarrow>
        dispatch (OrderViewSet OrderSerializer)
          \<lparr>http_method = ''PATCH'', authorization = c, http_query_params = q, http_data = d\<rparr>
          (Detail pk) Order_objects =
        (Response (case c of ValidToken u \<Rightarrow> 403 | NoCredential \<Rightarrow> 401 | InvalidToken \<Rightarrow> 401) [],
         Order_objects))"
  by (cases c) (simp_all add: framework_defs order_defs)

text \<open>The theorem at a PATCH by the staff actor and by the owner of the order.\<close>

theorem order_patch_refused_witness:
  "\<not> has_object_permission IsAdminOrReadOnly
       \<lparr>request_method = ''PATCH'', request_user = LoggedIn admin_user, query_params = no_query,
        request_data = order_of_user_1\<rparr> order_of_user_1
   \<and> dispatch (OrderViewSet echo_serializer)
       \<lparr>http_method = ''PATCH'', authorization = ValidToken admin_user,
        http_query_params = no_query, http_data = order_of_user_1\<rparr>
       (Detail 7) [order_of_user_1] = (Response 403 [], [order_of_user_1])
   \<and> dispatch (OrderViewSet echo_serializer)
       \<lparr>http_method = ''PATCH'', authorization = ValidToken user_1,
        http_query_params = no_query, http_data = order_of_user_1\<rparr>
       (Detail 7) [order_of_user_1] = (Response 403 [], [order_of_user_1])"
proof -
  have found: "get_object_or_404 order_id [order_of_user_1] 7 = Inr order_of_user_1"
    by (simp add: sample_defs)
  show ?thesis
    using found
      order_patch_refused [where request = "\<lparr>request_method = ''PATCH'',
        request_user = LoggedIn admin_user, query_params = no_query,
        request_data = order_of_user_1\<rparr>" and obj = order_of_user_1
        and Order_objects = "[order_of_user_1]" and pk = 7 and OrderSerializer = echo_serializer
        and c = "ValidToken admin_user" and q = no_query and d = order_of_user_1]
      order_patch_refused [where request = "\<lparr>request_method = ''PATCH'',
        request_user = LoggedIn admin_user, query_params = no_query,
        request_data = order_of_user_1\<rparr>" and obj = order_of_user_1
        and Order_objects = "[order_of_user_1]" and pk = 7 and OrderSerializer = echo_serializer
        and c = "ValidToken user_1" and q = no_query and d = order_of_user_1]
    by simp
qed

section \<open>Products: filters and listing\<close>

text \<open>
  What \<^verbatim>\<open>ProductFilter\<close> selects. The price range is closed at both ends.
  \<^verbatim>\<open>in_stock=true\<close> compares \<^verbatim>\<open>stock_quantity\<close> with \<^verbatim>\<open>True\<close>, that is with 1,
  and \<^verbatim>\<open>in_stock=false\<close> with 0.
\<close>

lemma ProductFilter_price_range:
  "ProductFilter Category_objects (no_query\<lparr>min_price := Some 10, max_price := Some 20\<rparr>) queryset
   = Inr (filter (\<lambda>p. 10 \<le> price p \<and> price p \<le> 20) queryset)"
  by (simp add: product_defs conj_commute)

lemma ProductFilter_in_stock_true:
  "ProductFilter Category_objects (no_query\<lparr>in_stock := Some True\<rparr>) queryset
   = Inr (filter (\<lambda>p. 1 < stock_quantity p) queryset)"
  by (simp add: product_defs)

lemma ProductFilter_in_stock_false:
  "ProductFilter Category_objects (no_query\<lparr>in_stock := Some False\<rparr>) queryset
   = Inr (filter (\<lambda>p. 0 < stock_quantity p) queryset)"
  by (simp add: product_defs)

text \<open>
  Claim C3 says that \<^verbatim>\<open>in_stock=true\<close> returns exactly the products with
  \<^verbatim>\<open>stock_quantity > 0\<close>. The code at a catalog of one product with one item left:
  the product is in stock and the filter drops it, on the list endpoint as well.
\<close>

theorem in_stock_true_drops_last_item:
  "ProductFilter [] (no_query\<lparr>in_stock := Some True\<rparr>)
     [\<lparr>product_id = 1, product_name = ''Test Product'', price = 1099 / 100,
       stock_quantity = 1, product_category = None\<rparr>] = Inr []
   \<and> fst (dispatch (ProductViewSet echo_serializer [])
       \<lparr>http_method = ''GET'', authorization = NoCredential,
        http_query_params = no_query\<lparr>in_stock := Some True\<rparr>,
        http_data = \<lparr>product_id = 0, product_name = [], price = 0, stock_quantity = 0,
                     product_category = None\<rparr>\<rparr>
       Collection
       [\<lparr>product_id = 1, product_name = ''Test Product'', price = 1099 / 100,
         stock_quantity = 1, product_category = None\<rparr>]) = Response 200 []"
  by (simp add: framework_defs product_defs)

text \<open>
  The product list for a request that passes authentication, whoever sends it: 400 when
  the filter's form rejects a parameter, 404 when the page does not exist, and otherwise
  200 with the page of the rows the filter keeps.
\<close>

lemma ProductFilter_error:
  "ProductFilter Category_objects q queryset = Inl exc \<Longrightarrow> exc = ValidationError"
  by (simp add: ProductFilter_def split: if_splits)

lemma paginate_queryset_error:
  "paginate_queryset per_page number queryset = Inl exc \<Longrightarrow> exc = Http404"
  by (simp add: paginate_queryset_def Let_def split: option.splits if_splits)

lemma product_list_response:
  assumes "c \<noteq> InvalidToken"
  shows "dispatch (ProductViewSet ProductSerializer Category_objects)
           \<lparr>http_method = ''GET'', authorization = c, http_query_params = q, http_data = d\<rparr>
           Collection Product_objects =
         (case ProductFilter Category_objects q Product_objects of
            Inl exc \<Rightarrow> (Response 400 [], Product_objects)
          | Inr kept \<Rightarrow>
              (case paginate_queryset (Some 10) (page q) kept of
                 Inl exc \<Rightarrow> (Response 404 [], Product_objects)
               | Inr shown \<Rightarrow> (Response 200 shown, Product_objects)))"
proof -
  have "\<exists>a. perform_authentication [JWTAuthentication] c = Inr a"
    using assms by (cases c) (simp_all add: JWTAuthentication_def)
  then obtain a where "perform_authentication [JWTAuthentication] c = Inr a" ..
  then show ?thesis
    by (auto simp: dispatch_def authenticated_request_def check_permissions_def
        IsAuthenticatedOrReadOnly_def SAFE_METHODS_def list_action_def handle_exception_def
        ProductViewSet_def ProductViewSet_get_queryset_def ProductPagination_page_size_def
        split: sum.splits dest: ProductFilter_error paginate_queryset_error)
qed

text \<open>
  Claim C7 as stated (listing succeeds with 200 for every actor, authenticated or not,
  and the product list is the full catalog) fails twice. A request whose bearer token
  does not validate is not treated as anonymous: it is answered 401 on the open product
  list too. And the list response is a page: of a catalog of 11 products it shows 10.
\<close>

theorem list_products_counterexample:
  "dispatch (ProductViewSet echo_serializer [])
     \<lparr>http_method = ''GET'', authorization = InvalidToken, http_query_params = no_query,
      http_data = sample_product 0\<rparr>
     Collection catalog_of_11 = (Response 401 [], catalog_of_11)
   \<and> length catalog_of_11 = 11
   \<and> length (data (fst (dispatch (ProductViewSet echo_serializer [])
       \<lparr>http_method = ''GET'', authorization = NoCredential, http_query_params = no_query,
        http_data = sample_product 0\<rparr>
       Collection catalog_of_11))) = 10"
  by (simp add: framework_defs product_defs catalog_of_11_def)

text \<open>
  Claim C7, amended. For every request that carries no credential or a valid one, signed
  in or not, listing the products and listing the categories answers 200; a request with
  an invalid bearer token is answered 401. The product queryset is the whole table for
  every request, so the visible set is the full catalog and does not depend on the
  actor. The product list response is one page (\<^verbatim>\<open>ProductPagination\<close>, 10 rows) of
  the rows that \<^verbatim>\<open>ProductFilter\<close> keeps of the catalog, the same page whoever asks:
  without query parameters, the first 10 products. The category list is the whole
  category table.
\<close>

theorem list_products_and_categories:
  "dispatch (ProductViewSet ProductSerializer Category_objects)
     \<lparr>http_method = ''GET'', authorization = c, http_query_params = no_query, http_data = d\<rparr>
     Collection Product_objects =
   (if c = InvalidToken then (Response 401 [], Product_objects)
    else (Response 200 (take 10 Product_objects), Product_objects))
   \<and> get_queryset (ProductViewSet ProductSerializer Category_objects)
        \<lparr>request_method = m, request_user = a, query_params = q, request_data = d\<rparr> Product_objects
      = Inr Product_objects
   \<and> dispatch (ProductViewSet ProductSerializer Category_objects)
        \<lparr>http_method = ''GET'', authorization = c, http_query_params = q, http_data = d\<rparr>
        Collection Product_objects =
      (if c = InvalidToken then (Response 401 [], Product_objects)
       else (case ProductFilter Category_objects q Product_objects of
               Inl exc \<Rightarrow> (Response 400 [], Product_objects)
             | Inr kept \<Rightarrow>
                 (case paginate_queryset (Some 10) (page q) kept of
                    Inl exc \<Rightarrow> (Response 404 [], Product_objects)
                  | Inr shown \<Rightarrow> (Response 200 shown, Product_objects))))
   \<and> dispatch (CategoryViewSet CategorySirializers)
        \<lparr>http_method = ''GET'', authorization = c, http_query_params = q, http_data = dc\<rparr>
        Collection Category_objects =
      (if c = InvalidToken then (Response 401 [], Category_objects)
       else (Response 200 Category_objects, Category_objects))"
proof -
  have first_page:
    "dispatch (ProductViewSet ProductSerializer Category_objects)
       \<lparr>http_method = ''GET'', authorization = c, http_query_params = no_query, http_data = d\<rparr>
       Collection Product_objects =
     (if c = InvalidToken then (Response 401 [], Product_objects)
      else (Response 200 (take 10 Product_objects), Product_objects))"
    by (cases c) (simp_all add: framework_defs product_defs)
  have visible:
    "get_queryset (ProductViewSet ProductSerializer Category_objects)
       \<lparr>request_method = m, request_user = a, query_params = q, request_data = d\<rparr> Product_objects
     = Inr Product_objects"
    by (simp add: ProductViewSet_def ProductViewSet_get_queryset_def)
  have any_page:
    "dispatch (ProductViewSet ProductSerializer Category_objects)
       \<lparr>http_method = ''GET'', authorization = c, http_query_params = q, http_data = d\<rparr>
       Collection Product_objects =
     (if c = InvalidToken then (Response 401 [], Product_objects)
      else (case ProductFilter Category_objects q Product_objects of
              Inl exc \<Rightarrow> (Response 400 [], Product_objects)
            | Inr kept \<Rightarrow>
                (case paginate_queryset (Some 10) (page q) kept of
                   Inl exc \<Rightarrow> (Response 404 [], Product_objects)
                 | Inr shown \<Rightarrow> (Response 200 shown, Product_objects))))"
  proof (cases "c = InvalidToken")
    case True
    have "authentication_classes (ProductViewSet ProductSerializer Category_objects)
          = JWTAuthentication # []"
      by (simp add: ProductViewSet_def)
    from invalid_token_unauthorized [OF this] True show ?thesis
      by simp
  next
    case False
    from product_list_response [OF False] False show ?thesis
      by simp
  qed
  have categories:
    "dispatch (CategoryViewSet CategorySirializers)
       \<lparr>http_method = ''GET'', authorization = c, http_query_params = q, http_data = dc\<rparr>
       Collection Category_objects =
     (if c = InvalidToken then (Response 401 [], Category_objects)
      else (Response 200 Category_objects, Category_objects))"
    by (cases c) (simp_all add: framework_defs category_defs)
  from first_page visible any_page categories show ?thesis
    by (intro conjI)
qed

text \<open>
  The theorem at a catalog of three products and a category table of one row, listed
  without credentials and by user 1.
\<close>

theorem list_products_and_categories_witness:
  "dispatch (ProductViewSet echo_serializer [\<lparr>category_id = 1, category_name = ''Test Category''\<rparr>])
     \<lparr>http_method = ''GET'', authorization = NoCredential, http_query_params = no_query,
      http_data = sample_product 0\<rparr>
     Collection [sample_product 1, sample_product 2, sample_product 3]
   = (Response 200 [sample_product 1, sample_product 2, sample_product 3],
      [sample_product 1, sample_product 2, sample_product 3])
   \<and> dispatch (ProductViewSet echo_serializer [\<lparr>category_id = 1, category_name = ''Test Category''\<rparr>])
     \<lparr>http_method = ''GET'', authorization = ValidToken user_1, http_query_params = no_query,
      http_data = sample_product 0\<rparr>
     Collection [sample_product 1, sample_product 2, sample_product 3]
   = (Response 200 [sample_product 1, sample_product 2, sample_product 3],
      [sample_product 1, sample_product 2, sample_product 3])
   \<and> dispatch (CategoryViewSet echo_serializer)
     \<lparr>http_method = ''GET'', authorization = NoCredential, http_query_params = no_query,
      http_data = \<lparr>category_id = 0, category_name = []\<rparr>\<rparr>
     Collection [\<lparr>category_id = 1, category_name = ''Test Category''\<rparr>]
   = (Response 200 [\<lparr>category_id = 1, category_name = ''Test Category''\<rparr>],
      [\<lparr>category_id = 1, category_name = ''Test Category''\<rparr>])"
proof -
  have anonymous: "NoCredential \<noteq> InvalidToken" and signed_in: "ValidToken user_1 \<noteq> InvalidToken"
    by simp_all
  show ?thesis
    using anonymous signed_in
      list_products_and_categories [where ProductSerializer = echo_serializer
        and Category_objects = "[\<lparr>category_id = 1, category_name = ''Test Category''\<rparr>]"
        and c = NoCredential and d = "sample_product 0"
        and Product_objects = "[sample_product 1, sample_product 2, sample_product 3]"
        and m = "''GET''" and a = AnonymousUser and q = no_query
        and CategorySirializers = echo_serializer
        and dc = "\<lparr>category_id = 0, category_name = []\<rparr>"]
      list_products_and_categories [where ProductSerializer = echo_serializer
        and Category_objects = "[\<lparr>category_id = 1, category_name = ''Test Category''\<rparr>]"
        and c = "ValidToken user_1" and d = "sample_product 0"
        and Product_objects = "[sample_product 1, sample_product 2, sample_product 3]"
        and m = "''GET''" and a = AnonymousUser and q = no_query
        and CategorySirializers = echo_serializer
        and dc = "\<lparr>category_id = 0, category_name = []\<rparr>"]
    by simp
qed

section \<open>Users\<close>

text \<open>
  Claim C8. In a user table with distinct primary keys, an authenticated actor who is a
  row of the table sees every user when staff and exactly their own row otherwise; the
  list endpoint answers 200 with that set.
\<close>

theorem user_visible_set:
  assumes "distinct (map user_id User_objects)" and "u \<in> set User_objects"
  shows "get_queryset (UserViewSet UserSerializer)
           \<lparr>request_method = m, request_user = LoggedIn u, query_params = q, request_data = d\<rparr>
           User_objects
         = Inr (if is_staff u then User_objects else [u])
       \<and> dispatch (UserViewSet UserSerializer)
           \<lparr>http_method = ''GET'', authorization = ValidToken u, http_query_params = q, http_data = d\<rparr>
           Collection User_objects
         = (Response 200 (if is_staff u then User_objects else [u]), User_objects)"
  using filter_pk_distinct [OF assms]
  by (simp add: framework_defs user_defs)

text \<open>The theorem at a table of three users, for a regular user and for the staff user.\<close>

theorem user_visible_set_witness:
  "get_queryset (UserViewSet echo_serializer)
     \<lparr>request_method = ''GET'', request_user = LoggedIn user_2, query_params = no_query,
      request_data = user_2\<rparr> [user_1, user_2, admin_user] = Inr [user_2]
   \<and> get_queryset (UserViewSet echo_serializer)
     \<lparr>request_method = ''GET'', request_user = LoggedIn admin_user, query_params = no_query,
      request_data = user_2\<rparr> [user_1, user_2, admin_user] = Inr [user_1, user_2, admin_user]"
proof -
  have keys: "distinct (map user_id [user_1, user_2, admin_user])"
    by (simp add: sample_defs)
  have r2: "user_2 \<in> set [user_1, user_2, admin_user]"
    and r3: "admin_user \<in> set [user_1, user_2, admin_user]"
    by simp_all
  have staff: "is_staff admin_user" "\<not> is_staff user_2"
    by (simp_all add: sample_defs)
  show ?thesis
    using user_visible_set [OF keys r2, of echo_serializer "''GET''" no_query user_2]
      user_visible_set [OF keys r3, of echo_serializer "''GET''" no_query user_2] staff
    by simp
qed

section \<open>Reviews\<close>

text \<open>
  Claim C5. When an authenticated actor creates a review, the row that is stored has the
  acting user as its user (its author), whatever the payload and whatever the serializer
  keeps of it: the answer is 201 with that row appended to the table, or 400 with the
  table unchanged when the serializer rejects the payload. The actor is authenticated by
  whichever authentication classes the settings name.
\<close>

theorem review_create_stores_acting_user:
  assumes "perform_authentication DEFAULT_AUTHENTICATION_CLASSES c = Inr (LoggedIn u)"
  shows "dispatch (ReviewViewSet ReviewSerializer DEFAULT_AUTHENTICATION_CLASSES new_pk)
     \<lparr>http_method = ''POST'', authorization = c, http_query_params = q, http_data = d\<rparr>
     Collection Review_objects =
   (case validate ReviewSerializer False d of
      None \<Rightarrow> (Response 400 [], Review_objects)
    | Some validated_data \<Rightarrow>
        (Response 201
           [\<lparr>review_id = new_pk,
             review_product = data_product validated_data,
             rating = data_rating validated_data,
             comment = data_comment validated_data,
             review_user = user_id u\<rparr>],
         Review_objects @
           [\<lparr>review_id = new_pk,
             review_product = data_product validated_data,
             rating = data_rating validated_data,
             comment = data_comment validated_data,
             review_user = user_id u\<rparr>]))"
  using assms
  by (simp add: framework_defs review_defs split: option.splits)

text \<open>
  The theorem at a payload of user 2 that names user 1 as the author, with a serializer
  that keeps the key: the stored review belongs to user 2.
\<close>

theorem review_create_stores_acting_user_witness:
  "dispatch (ReviewViewSet review_serializer [JWTAuthentication] 9)
     \<lparr>http_method = ''POST'', authorization = ValidToken user_2, http_query_params = no_query,
      http_data = \<lparr>data_product = 5, data_rating = 1, data_comment = ''Bad'', data_user = Some 1\<rparr>\<rparr>
     Collection [review_of_user_1]
   = (Response 201
        [\<lparr>review_id = 9, review_product = 5, rating = 1, comment = ''Bad'', review_user = 2\<rparr>],
      [review_of_user_1,
       \<lparr>review_id = 9, review_product = 5, rating = 1, comment = ''Bad'', review_user = 2\<rparr>])"
proof -
  have signed_in: "perform_authentication [JWTAuthentication] (ValidToken user_2) = Inr (LoggedIn user_2)"
    by (simp add: JWTAuthentication_def)
  show ?thesis
    using review_create_stores_acting_user [OF signed_in, of review_serializer 9 no_query
      "\<lparr>data_product = 5, data_rating = 1, data_comment = ''Bad'', data_user = Some 1\<rparr>"
      "[review_of_user_1]"]
    by (simp add: review_serializer_def user_2_def)
qed

text \<open>
  Claim C9. Every authenticated actor may update (PUT) and delete every review of the
  table, whether or not they wrote it and whether or not they are staff: the only
  permission class is \<^verbatim>\<open>IsAuthenticated\<close>, there is no object-level check, and the
  queryset is the whole review table.
\<close>

theorem review_update_delete_any_authenticated:
  assumes "get_object_or_404 review_id Review_objects pk = Inr obj"
    and "perform_authentication DEFAULT_AUTHENTICATION_CLASSES c = Inr (LoggedIn u)"
  shows "dispatch (ReviewViewSet ReviewSerializer DEFAULT_AUTHENTICATION_CLASSES new_pk)
           \<lparr>http_method = ''PUT'', authorization = c, http_query_params = q, http_data = d\<rparr>
           (Detail pk) Review_objects =
         (case validate ReviewSerializer False d of
            None \<Rightarrow> (Response 400 [], Review_objects)
          | Some validated_data \<Rightarrow>
              (Response 200 [update_row ReviewSerializer obj validated_data],
               map (\<lambda>r. if review_id r = pk then update_row ReviewSerializer obj validated_data else r)
                 Review_objects))
       \<and> dispatch (ReviewViewSet ReviewSerializer DEFAULT_AUTHENTICATION_CLASSES new_pk)
           \<lparr>http_method = ''DELETE'', authorization = c, http_query_params = q, http_data = d\<rparr>
           (Detail pk) Review_objects =
         (Response 204 [], filter (\<lambda>r. review_id r \<noteq> pk) Review_objects)
       \<and> get_queryset (ReviewViewSet ReviewSerializer DEFAULT_AUTHENTICATION_CLASSES new_pk)
           \<lparr>request_method = m, request_user = LoggedIn u, query_params = q, request_data = d\<rparr>
           Review_objects = Inr Review_objects"
  using assms
  by (simp add: framework_defs review_defs split: option.splits)

text \<open>
  The theorem at the review of user 1 and the regular user 2, who is neither its author
  nor staff: user 2 rewrites the review, and user 2 deletes it.
\<close>

theorem review_update_delete_any_authenticated_witness:
  "dispatch (ReviewViewSet review_serializer [JWTAuthentication] 9)
     \<lparr>http_method = ''PUT'', authorization = ValidToken user_2, http_query_params = no_query,
      http_data = \<lparr>data_product = 5, data_rating = 1, data_comment = ''Bad'', data_user = None\<rparr>\<rparr>
     (Detail 4) [review_of_user_1]
   = (Response 200
        [\<lparr>review_id = 4, review_product = 5, rating = 1, comment = ''Bad'', review_user = 1\<rparr>],
      [\<lparr>review_id = 4, review_product = 5, rating = 1, comment = ''Bad'', review_user = 1\<rparr>])
   \<and> dispatch (ReviewViewSet review_serializer [JWTAuthentication] 9)
     \<lparr>http_method = ''DELETE'', authorization = ValidToken user_2, http_query_params = no_query,
      http_data = \<lparr>data_product = 5, data_rating = 1, data_comment = ''Bad'', data_user = None\<rparr>\<rparr>
     (Detail 4) [review_of_user_1] = (Response 204 [], [])"
proof -
  have found: "get_object_or_404 review_id [review_of_user_1] 4 = Inr review_of_user_1"
    by (simp add: sample_defs)
  have signed_in: "perform_authentication [JWTAuthentication] (ValidToken user_2) = Inr (LoggedIn user_2)"
    by (simp add: JWTAuthentication_def)
  show ?thesis
    using review_update_delete_any_authenticated [OF found signed_in, of review_serializer 9 no_query
        "\<lparr>data_product = 5, data_rating = 1, data_comment = ''Bad'', data_user = None\<rparr>"]
    by (simp add: review_serializer_def review_of_user_1_def)
qed

section \<open>Anonymous requests\<close>

text \<open>
  What a request without credentials gets when it creates a record. A user is created
  (201) when the serializer accepts the payload: \<^verbatim>\<open>get_permissions\<close> returns no
  permission class for the \<^verbatim>\<open>create\<close> action. A product and an order are refused
  whatever the payload, and nothing is stored; the refusal is \<^verbatim>\<open>NotAuthenticated\<close>,
  and since the view's first authentication class is \<^verbatim>\<open>JWTAuthentication\<close> the status
  is 401. A review is refused too, with 401 or 403 as the first default authentication
  class of the settings has a challenge or not.
\<close>

lemma anonymous_create_responses:
  "(validate UserSerializer False d_user = Some validated_data \<longrightarrow>
      dispatch (UserViewSet UserSerializer)
        \<lparr>http_method = ''POST'', authorization = NoCredential, http_query_params = q,
         http_data = d_user\<rparr>
        Collection User_objects =
      (Response 201 [create_row UserSerializer validated_data User_objects],
       User_objects @ [create_row UserSerializer validated_data User_objects]))
   \<and> dispatch (ProductViewSet ProductSerializer Category_objects)
        \<lparr>http_method = ''POST'', authorization = NoCredential, http_query_params = q,
         http_data = d_product\<rparr>
        Collection Product_objects = (Response 401 [], Product_objects)
   \<and> dispatch (OrderViewSet OrderSerializer)
        \<lparr>http_method = ''POST'', authorization = NoCredential, http_query_params = q,
         http_data = d_order\<rparr>
        Collection Order_objects = (Response 401 [], Order_objects)
   \<and> (perform_authentication DEFAULT_AUTHENTICATION_CLASSES NoCredential = Inr AnonymousUser \<longrightarrow>
      dispatch (ReviewViewSet ReviewSerializer DEFAULT_AUTHENTICATION_CLASSES new_pk)
        \<lparr>http_method = ''POST'', authorization = NoCredential, http_query_params = q,
         http_data = d_review\<rparr>
        Collection Review_objects =
      (Response (case DEFAULT_AUTHENTICATION_CLASSES of
                   [] \<Rightarrow> 403
                 | cls # classes \<Rightarrow>
                     (case authenticate_header cls of None \<Rightarrow> 403 | Some challenge \<Rightarrow> 401)) [],
       Review_objects))"
  by (simp add: framework_defs user_defs product_defs order_defs review_defs
      split: list.splits option.splits)

text \<open>
  Reading one user or one order without credentials is refused in the same way: 401,
  where \<^verbatim>\<open>test_get_user_as_unauthenticated\<close> and
  \<^verbatim>\<open>test_get_order_as_unauthenticated\<close> expect 403.
\<close>

lemma anonymous_retrieve_unauthorized:
  "dispatch (UserViewSet UserSerializer)
     \<lparr>http_method = ''GET'', authorization = NoCredential, http_query_params = q,
      http_data = d_user\<rparr>
     (Detail pk) User_objects = (Response 401 [], User_objects)
   \<and> dispatch (OrderViewSet OrderSerializer)
     \<lparr>http_method = ''GET'', authorization = NoCredential, http_query_params = q,
      http_data = d_order\<rparr>
     (Detail pk) Order_objects = (Response 401 [], Order_objects)"
  by (simp add: framework_defs user_defs order_defs)

text \<open>
  Claim C6 says that an anonymous actor who creates a product or an order is denied with
  403, as \<^verbatim>\<open>test_create_product_as_unauthenticated\<close> and
  \<^verbatim>\<open>test_create_order_as_unauthenticated\<close> assert. The code at the anonymous POST of
  the tests' product and of an order: both are refused with 401 (and the registration of
  a user succeeds with 201).
\<close>

theorem anonymous_create_unauthorized:
  "dispatch (ProductViewSet echo_serializer [\<lparr>category_id = 1, category_name = ''Test Category''\<rparr>])
     \<lparr>http_method = ''POST'', authorization = NoCredential, http_query_params = no_query,
      http_data = \<lparr>product_id = 2, product_name = ''New Product'', price = 1599 / 100,
                   stock_quantity = 50, product_category = Some 1\<rparr>\<rparr>
     Collection [sample_product 1] = (Response 401 [], [sample_product 1])
   \<and> dispatch (OrderViewSet echo_serializer)
     \<lparr>http_method = ''POST'', authorization = NoCredential, http_query_params = no_query,
      http_data = \<lparr>order_id = 8, order_user = 1, order_items = [(1, 2)]\<rparr>\<rparr>
     Collection [order_of_user_1] = (Response 401 [], [order_of_user_1])
   \<and> dispatch (UserViewSet echo_serializer)
     \<lparr>http_method = ''POST'', authorization = NoCredential, http_query_params = no_query,
      http_data = user_2\<rparr>
     Collection [user_1] = (Response 201 [user_2], [user_1, user_2])"
  by (simp add: framework_defs user_defs product_defs order_defs echo_serializer_def)


end
